theory Spec2Isabelle
  imports Complex_Main "HOL-Library.AList"
begin

section \<open>Python values, exceptions and dictionaries\<close>

text \<open>
  The module \<^verbatim>\<open>backend/api/main.py\<close> is dynamically typed. The values it handles are
  modelled by \<open>pyval\<close>; a dictionary is an association list, which keeps Python's
  insertion order, and \<open>AList.update\<close> is the item assignment \<^verbatim>\<open>d[k] = v\<close> (it overwrites
  in place or appends). A character of a \<open>string\<close> stands for one code point of a
  Python \<^verbatim>\<open>str\<close> (the code points below 256).
\<close>

datatype pyval =
    PNone
  | PBool bool
  | PInt int
  | PStr string
  | PList "pyval list"
  | PDict "(string \<times> pyval) list"

text \<open>
  Every exception a statement of the module can raise is a value. \<open>Raised\<close> is an
  exception that comes out of a collaborator module (\<^verbatim>\<open>oauth2\<close>, \<^verbatim>\<open>document_db\<close>,
  \<^verbatim>\<open>json\<close>), with its text.
\<close>

datatype exn = TypeError | AttributeError | KeyError | Raised string

type_synonym profile = "(string \<times> pyval) list"

text \<open>
  A name bound to a profile refers either to \<^verbatim>\<open>None\<close> or to a dictionary:
  \<open>None\<close> is Python's \<^verbatim>\<open>None\<close>, \<open>Some d\<close> the dictionary \<open>d\<close>.
\<close>

text \<open>\<^verbatim>\<open>k in user_profile\<close>: membership in \<^verbatim>\<open>None\<close> raises \<^verbatim>\<open>TypeError\<close>.\<close>

definition py_in :: "string \<Rightarrow> profile option \<Rightarrow> exn + bool" where
  "py_in k up = (case up of None \<Rightarrow> Inl TypeError | Some d \<Rightarrow> Inr (map_of d k \<noteq> None))"

text \<open>\<^verbatim>\<open>user_profile[k]\<close>: an absent key raises \<^verbatim>\<open>KeyError\<close>.\<close>

definition getitem :: "profile option \<Rightarrow> string \<Rightarrow> exn + pyval" where
  "getitem up k =
     (case up of
        None \<Rightarrow> Inl TypeError
      | Some d \<Rightarrow> (case map_of d k of None \<Rightarrow> Inl KeyError | Some v \<Rightarrow> Inr v))"

text \<open>\<^verbatim>\<open>user_profile[k] = v\<close>.\<close>

definition setitem :: "profile option \<Rightarrow> string \<Rightarrow> pyval \<Rightarrow> exn + profile option" where
  "setitem up k v =
     (case up of None \<Rightarrow> Inl TypeError | Some d \<Rightarrow> Inr (Some (AList.update k v d)))"

text \<open>\<^verbatim>\<open>obj[k]\<close> on a decoded JSON value, with a \<^verbatim>\<open>str\<close> key.\<close>

fun subscript :: "pyval \<Rightarrow> string \<Rightarrow> exn + pyval" where
  "subscript (PDict d) k = (case map_of d k of None \<Rightarrow> Inl KeyError | Some v \<Rightarrow> Inr v)"
| "subscript _ k = Inl TypeError"

text \<open>
  \<^verbatim>\<open>str.isspace\<close> on one code point below 256, and \<^verbatim>\<open>str.strip()\<close>, which removes
  the leading and the trailing white space.
\<close>

definition py_isspace :: "char \<Rightarrow> bool" where
  "py_isspace c = (of_char c \<in> {9, 10, 11, 12, 13, 28, 29, 30, 31, 32, 133, 160 :: nat})"

definition strip :: "string \<Rightarrow> string" where
  "strip s = rev (dropWhile py_isspace (rev (dropWhile py_isspace s)))"

text \<open>\<^verbatim>\<open>v.strip()\<close>: only a \<^verbatim>\<open>str\<close> has the method.\<close>

fun str_strip :: "pyval \<Rightarrow> exn + string" where
  "str_strip (PStr s) = Inr (strip s)"
| "str_strip _ = Inl AttributeError"

section \<open>The profile update\<close>

text \<open>The object \<^verbatim>\<open>oauth2.get_user_info\<close> returns, with the attributes the module reads.\<close>

record user_info =
  name :: pyval
  login_sub :: pyval
  picture_url :: pyval
  profile_url :: pyval
  last_logged_in :: pyval
  email_address :: pyval

text \<open>
  A block of statements runs from a state until one of them raises. The dictionary is
  mutated in place, so the assignments made before the exception stay: \<open>run\<close> returns
  the state reached together with the exception, if any.
\<close>

fun run :: "('s \<Rightarrow> exn + 's) list \<Rightarrow> 's \<Rightarrow> 's \<times> exn option" where
  "run [] s = (s, None)"
| "run (c # cs) s = (case c s of Inl e \<Rightarrow> (s, Some e) | Inr s' \<Rightarrow> run cs s')"

text \<open>A statement on the profile alone leaves the document store as it is.\<close>

definition on_profile ::
  "(profile option \<Rightarrow> exn + profile option) \<Rightarrow> profile option \<times> 'db \<Rightarrow> exn + profile option \<times> 'db" where
  "on_profile f s = (case f (fst s) of Inl e \<Rightarrow> Inl e | Inr up \<Rightarrow> Inr (up, snd s))"

text \<open>
  Line 12, \<^verbatim>\<open>not "name" in user_profile or user_profile["name"].strip() == ""\<close>:
  the right operand of \<^verbatim>\<open>or\<close> is evaluated only when the left one is false.
\<close>

definition name_missing_or_blank :: "profile option \<Rightarrow> exn + bool" where
  "name_missing_or_blank up =
     (case py_in ''name'' up of
        Inl e \<Rightarrow> Inl e
      | Inr present \<Rightarrow>
          if \<not> present then Inr True
          else (case getitem up ''name'' of
                  Inl e \<Rightarrow> Inl e
                | Inr v \<Rightarrow> (case str_strip v of Inl e \<Rightarrow> Inl e | Inr s \<Rightarrow> Inr (s = ''''))))"

text \<open>
  Lines 18-19 and 25-26, \<^verbatim>\<open>not k in user_profile is None or user_profile[k].strip() == ""\<close>.
  \<^verbatim>\<open>not\<close> binds weaker than the comparison operators, and \<^verbatim>\<open>k in user_profile is None\<close>
  is a chained comparison: \<^verbatim>\<open>(k in user_profile) and (user_profile is None)\<close>, with the
  second comparison evaluated only when the first is true.
\<close>

definition url_missing_or_blank :: "string \<Rightarrow> profile option \<Rightarrow> exn + bool" where
  "url_missing_or_blank k up =
     (case py_in k up of
        Inl e \<Rightarrow> Inl e
      | Inr present \<Rightarrow>
          let chained = (if present then up = None else False) in
          if \<not> chained then Inr True
          else (case getitem up k of
                  Inl e \<Rightarrow> Inl e
                | Inr v \<Rightarrow> (case str_strip v of Inl e \<Rightarrow> Inl e | Inr s \<Rightarrow> Inr (s = ''''))))"

text \<open>
  \<^verbatim>\<open>_update_user_profile\<close>, lines 11-32. \<^verbatim>\<open>document_db.upsert_user\<close> belongs to a module
  that is not part of the sources at hand: it is the parameter \<open>upsert_user\<close>, a
  function on a document store of any type \<open>'db\<close> that may raise. The result is the
  profile object and the store as the call leaves them, and the exception raised, if any.
\<close>

definition update_user_profile ::
  "(profile option \<Rightarrow> 'db \<Rightarrow> exn + 'db) \<Rightarrow> profile option \<Rightarrow> user_info \<Rightarrow> 'db
     \<Rightarrow> (profile option \<times> 'db) \<times> exn option" where
  "update_user_profile upsert_user user_profile ui db =
     run
       [ on_profile (\<lambda>up.
           case name_missing_or_blank up of
             Inl e \<Rightarrow> Inl e
           | Inr c \<Rightarrow> if c then setitem up ''name'' (name ui)
                      else setitem up ''name'' (PStr '''')),
         on_profile (\<lambda>up. setitem up ''login_sub'' (login_sub ui)),
         on_profile (\<lambda>up.
           case url_missing_or_blank ''picture_url'' up of
             Inl e \<Rightarrow> Inl e
           | Inr c \<Rightarrow> if c then setitem up ''picture_url'' (picture_url ui)
                      else setitem up ''picture_url'' (PStr '''')),
         on_profile (\<lambda>up.
           case url_missing_or_blank ''profile_url'' up of
             Inl e \<Rightarrow> Inl e
           | Inr c \<Rightarrow> if c then setitem up ''profile_url'' (profile_url ui)
                      else setitem up ''profile_url'' (PStr '''')),
         on_profile (\<lambda>up. setitem up ''last_logged_in'' (last_logged_in ui)),
         (\<lambda>s. case upsert_user (fst s) (snd s) of Inl e \<Rightarrow> Inl e | Inr db' \<Rightarrow> Inr (fst s, db')) ]
       (user_profile, db)"

section \<open>The access token\<close>

text \<open>
  The collaborators of \<^verbatim>\<open>get_access_token\<close>: the functions of \<^verbatim>\<open>oauth2\<close> and
  \<^verbatim>\<open>document_db\<close> it calls, and \<^verbatim>\<open>json.loads\<close>. None of them is among the sources,
  so each is a parameter, and each may raise.
\<close>

record 'db collaborators =
  oauth2_get_access_token :: "pyval \<Rightarrow> exn + pyval"
  json_loads :: "pyval \<Rightarrow> exn + pyval"
  oauth2_get_user_info :: "pyval \<Rightarrow> exn + (pyval + user_info)"
  document_db_get_user :: "pyval \<Rightarrow> 'db \<Rightarrow> exn + profile option"
  document_db_upsert_user :: "profile option \<Rightarrow> 'db \<Rightarrow> exn + 'db"

text \<open>
  What \<^verbatim>\<open>oauth2.get_user_info\<close> returns is either a plain value (\<open>Inl\<close>: \<^verbatim>\<open>None\<close>, an
  empty dictionary, a string, ...) or an object with the attributes of \<open>user_info\<close>
  (\<open>Inr\<close>). The truth value of a plain value is Python's; an object is truthy. A plain
  value has no attribute \<^verbatim>\<open>email_address\<close>: reading it raises \<^verbatim>\<open>AttributeError\<close>.
\<close>

fun truthy :: "pyval \<Rightarrow> bool" where
  "truthy PNone = False"
| "truthy (PBool b) = b"
| "truthy (PInt i) = (i \<noteq> 0)"
| "truthy (PStr s) = (s \<noteq> [])"
| "truthy (PList xs) = (xs \<noteq> [])"
| "truthy (PDict d) = (d \<noteq> [])"

text \<open>
  \<^verbatim>\<open>not user_profile\<close>: \<^verbatim>\<open>None\<close> and the empty dictionary are the falsy profiles.
  \<^verbatim>\<open>document_db.get_user\<close> reads the store and leaves it as it is.
\<close>

definition profile_truthy :: "profile option \<Rightarrow> bool" where
  "profile_truthy up = (case up of None \<Rightarrow> False | Some d \<Rightarrow> d \<noteq> [])"

definition not_registered :: string where
  "not_registered = ''Error: user is not registered to access!''"

text \<open>
  \<^verbatim>\<open>get_access_token\<close>, lines 35-46. The result is the store as the call leaves it and
  either the exception that ended the call or the value returned.
\<close>

definition get_access_token :: "'db collaborators \<Rightarrow> pyval \<Rightarrow> 'db \<Rightarrow> 'db \<times> (exn + pyval)" where
  "get_access_token c authorisation_code db =
     (case oauth2_get_access_token c authorisation_code of
        Inl e \<Rightarrow> (db, Inl e)
      | Inr access_token \<Rightarrow>
     (case json_loads c access_token of
        Inl e \<Rightarrow> (db, Inl e)
      | Inr obj \<Rightarrow>
     (case subscript obj ''access_token'' of
        Inl e \<Rightarrow> (db, Inl e)
      | Inr token \<Rightarrow>
     (case oauth2_get_user_info c token of
        Inl e \<Rightarrow> (db, Inl e)
      | Inr (Inl v) \<Rightarrow> if truthy v then (db, Inl AttributeError) else (db, Inr PNone)
      | Inr (Inr ui) \<Rightarrow>
     (case document_db_get_user c (email_address ui) db of
        Inl e \<Rightarrow> (db, Inl e)
      | Inr user_profile \<Rightarrow>
          if \<not> profile_truthy user_profile then (db, Inr (PStr not_registered))
          else (case update_user_profile (document_db_upsert_user c) user_profile ui db of
                  (s, Some e) \<Rightarrow> (snd s, Inl e)
                | (s, None) \<Rightarrow> (snd s, Inr access_token)))))))"

text \<open>
  The dictionary after the five assignments of lines 12-31, when the name assigned is
  \<open>n\<close>, and the exception, if any, of the call of \<^verbatim>\<open>upsert_user\<close> on it.
\<close>

definition stamped :: "pyval \<Rightarrow> user_info \<Rightarrow> profile \<Rightarrow> profile" where
  "stamped n ui d =
     AList.update ''last_logged_in'' (last_logged_in ui)
       (AList.update ''profile_url'' (profile_url ui)
         (AList.update ''picture_url'' (picture_url ui)
           (AList.update ''login_sub'' (login_sub ui)
             (AList.update ''name'' n d))))"

definition upsert_outcome ::
  "(profile option \<Rightarrow> 'db \<Rightarrow> exn + 'db) \<Rightarrow> profile \<Rightarrow> 'db \<Rightarrow> exn option" where
  "upsert_outcome upsert d db = (case upsert (Some d) db of Inl e \<Rightarrow> Some e | Inr _ \<Rightarrow> None)"

section \<open>Start-up configuration\<close>

text \<open>
  The module \<^verbatim>\<open>config\<close> holds the settings as module attributes; its source is not at
  hand, so the values it holds before \<^verbatim>\<open>init\<close> runs are a parameter. The record has
  the attributes \<^verbatim>\<open>init\<close> assigns.
\<close>

record config =
  DEBUG_MODE :: pyval
  PORT :: pyval
  MODEL_FILE :: pyval
  SYMPTOMS_TOKENISER_FILE :: pyval
  CAUSES_TOKENISER_FILE :: pyval
  SYMPTOMS_SEPARATOR :: pyval
  SYMPTOMS_SEQUENCE_PADDING_TYPE :: pyval
  SYMPTOMS_SEQUENCE_MAXLEN :: pyval
  MONGODB_URL :: pyval
  MONGODB_DATABASE :: pyval
  WEB_REQUEST_TIMEOUT_SECONDS :: pyval
  CACHE_TIMEOUT_SECONDS :: pyval
  TENANT_DOMAIN :: pyval
  TENANT_OPENID_CONFIGURATION_CACHE_KEY :: pyval
  AUTHORISATION_HEADER_KEY :: pyval
  REDIRECT_URL :: pyval
  CLIENT_ID :: pyval
  CLIENT_SECRET :: pyval

text \<open>The namespace \<^verbatim>\<open>lib.parse_cli_args()\<close> returns.\<close>

record cli_args =
  debug_mode :: pyval
  port :: pyval

text \<open>
  \<^verbatim>\<open>os.environ.get(key, default=d)\<close>: the process environment maps names to strings,
  and the value of a variable that is set is returned as it is, a \<^verbatim>\<open>str\<close>.
\<close>

definition environ_get :: "(string \<rightharpoonup> string) \<Rightarrow> string \<Rightarrow> pyval \<Rightarrow> pyval" where
  "environ_get environ key dflt = (case environ key of Some v \<Rightarrow> PStr v | None \<Rightarrow> dflt)"

text \<open>
  \<^verbatim>\<open>init\<close>, lines 128-169: the assignments to the attributes of \<^verbatim>\<open>config\<close>, in the
  order of the source. The calls that follow them (lines 171-177: logging, loading of the
  model, the database client, the cache) go to modules that are not at hand and are
  left out; none of them is passed the configuration as an argument.
\<close>

definition init :: "cli_args \<Rightarrow> (string \<rightharpoonup> string) \<Rightarrow> config \<Rightarrow> config" where
  "init args environ config0 =
     (let config = config0\<lparr>DEBUG_MODE := debug_mode args\<rparr>;
          config = config\<lparr>PORT := port args\<rparr>;
          config = config\<lparr>MODEL_FILE := environ_get environ ''MODEL_FILE'' (MODEL_FILE config)\<rparr>;
          config = config\<lparr>SYMPTOMS_TOKENISER_FILE :=
            environ_get environ ''SYMPTOMS_TOKENISER_FILE'' (SYMPTOMS_TOKENISER_FILE config)\<rparr>;
          config = config\<lparr>CAUSES_TOKENISER_FILE :=
            environ_get environ ''CAUSES_TOKENISER_FILE'' (CAUSES_TOKENISER_FILE config)\<rparr>;
          config = config\<lparr>SYMPTOMS_SEPARATOR :=
            environ_get environ ''SYMPTOMS_SEPARATOR'' (SYMPTOMS_SEPARATOR config)\<rparr>;
          config = config\<lparr>SYMPTOMS_SEQUENCE_PADDING_TYPE :=
            environ_get environ ''SYMPTOMS_SEQUENCE_PADDING_TYPE''
              (SYMPTOMS_SEQUENCE_PADDING_TYPE config)\<rparr>;
          config = config\<lparr>SYMPTOMS_SEQUENCE_MAXLEN :=
            environ_get environ ''SYMPTOMS_SEQUENCE_MAXLEN'' (SYMPTOMS_SEQUENCE_MAXLEN config)\<rparr>;
          config = config\<lparr>MONGODB_URL := environ_get environ ''MONGODB_URL'' (MONGODB_URL config)\<rparr>;
          config = config\<lparr>MONGODB_DATABASE :=
            environ_get environ ''MONGODB_DATABASE'' (MONGODB_DATABASE config)\<rparr>;
          config = config\<lparr>WEB_REQUEST_TIMEOUT_SECONDS :=
            environ_get environ ''WEB_REQUEST_TIMEOUT_SECONDS'' (WEB_REQUEST_TIMEOUT_SECONDS config)\<rparr>;
          config = config\<lparr>CACHE_TIMEOUT_SECONDS :=
            environ_get environ ''CACHE_TIMEOUT_SECONDS'' (CACHE_TIMEOUT_SECONDS config)\<rparr>;
          config = config\<lparr>TENANT_DOMAIN :=
            environ_get environ ''TENANT_DOMAIN'' (TENANT_DOMAIN config)\<rparr>;
          config = config\<lparr>TENANT_OPENID_CONFIGURATION_CACHE_KEY :=
            environ_get environ ''TENANT_OPENID_CONFIGURATION_CACHE_KEY''
              (TENANT_OPENID_CONFIGURATION_CACHE_KEY config)\<rparr>;
          config = config\<lparr>AUTHORISATION_HEADER_KEY :=
            environ_get environ ''AUTHORISATION_HEADER_KEY'' (AUTHORISATION_HEADER_KEY config)\<rparr>;
          config = config\<lparr>REDIRECT_URL := environ_get environ ''REDIRECT_URL'' (REDIRECT_URL config)\<rparr>;
          config = config\<lparr>CLIENT_ID := environ_get environ ''CLIENT_ID'' (CLIENT_ID config)\<rparr>;
          config = config\<lparr>CLIENT_SECRET :=
            environ_get environ ''CLIENT_SECRET'' (CLIENT_SECRET config)\<rparr>
      in config)"

text \<open>
  A positive integer: an \<^verbatim>\<open>int\<close> above zero, or \<^verbatim>\<open>True\<close> (\<^verbatim>\<open>bool\<close> is a subclass of
  \<^verbatim>\<open>int\<close>, and \<^verbatim>\<open>True == 1\<close>). A \<^verbatim>\<open>str\<close> of digits is not one.
\<close>

fun is_positive_int :: "pyval \<Rightarrow> bool" where
  "is_positive_int (PInt i) = (0 < i)"
| "is_positive_int (PBool b) = b"
| "is_positive_int _ = False"

section \<open>The prediction engine\<close>

text \<open>
  \<^verbatim>\<open>predict_provisional_diagnosis\<close> (lines 91-97) passes its five arguments to
  \<^verbatim>\<open>machine_learning.predict_provisional_diagnosis\<close> and returns its result. The module
  \<^verbatim>\<open>machine_learning\<close> is not among the sources at hand; the definitions of this section
  follow the words of the specification (sections 3, 4 and 7), component by component.
  Confidences are real numbers.
\<close>

text \<open>
  Modelled from the spec: the error taxonomy of section 7; the module
  \<^verbatim>\<open>machine_learning\<close> that raises them is missing.
\<close>

datatype engine_error =
  ArtifactLoadError | UnknownIndexError | DistributionMismatchError | InvalidFeatureError

text \<open>
  Modelled from the spec: the Vocabulary of section 3 (module \<^verbatim>\<open>machine_learning\<close> is
  missing), a two-way mapping between tokens and unique non-negative ids with a reserved
  unknown id and a reserved padding id. The id of a token is its position in the list,
  so that an id is in range exactly when it is below the size of the vocabulary.
\<close>

record vocabulary =
  tokens :: "string list"
  unknown_id :: nat
  padding_id :: nat

text \<open>
  Modelled from the spec: the token-to-id direction of the Vocabulary (section 3, missing
  from the sources): the position of a token in the list, if it occurs.
\<close>

fun index_of :: "'a \<Rightarrow> 'a list \<Rightarrow> nat option" where
  "index_of x [] = None"
| "index_of x (y # ys) = (if x = y then Some 0 else map_option Suc (index_of x ys))"

text \<open>
  Modelled from the spec: \<^verbatim>\<open>encode(token) -> id\<close> of the Vocabulary Store (4.1, missing
  from the sources), which returns the unknown id for an absent token and never fails.
\<close>

definition vocab_encode :: "vocabulary \<Rightarrow> string \<Rightarrow> nat" where
  "vocab_encode v t = (case index_of t (tokens v) of Some i \<Rightarrow> i | None \<Rightarrow> unknown_id v)"

text \<open>
  Modelled from the spec: \<^verbatim>\<open>decode(id) -> token\<close> of the Vocabulary Store (4.1, missing
  from the sources), which fails with \<^verbatim>\<open>UnknownIndexError\<close> when the id is out of range.
\<close>

definition vocab_decode :: "vocabulary \<Rightarrow> nat \<Rightarrow> engine_error + string" where
  "vocab_decode v i = (if i < length (tokens v) then Inr (tokens v ! i) else Inl UnknownIndexError)"

text \<open>
  Modelled from the spec: the Symptom Input of section 3 (its consumer is missing from the
  sources), five fields; the three textual fields are ordered, as in the end-to-end
  scenario of section 8, and age is the name of an age group.
\<close>

record symptom_input =
  subjective_symptoms :: "string list"
  associated_symptoms :: "string list"
  investigations_done :: "string list"
  gender :: string
  age :: string

text \<open>
  Modelled from the spec: the padding type of section 6, \<^verbatim>\<open>"pre"\<close> or \<^verbatim>\<open>"post"\<close> (the
  Sequence Encoder that reads it is missing from the sources).
\<close>

datatype padding_type = Pre | Post

text \<open>
  Modelled from the spec: step 1 of the Sequence Encoder (4.2, missing from the sources).
  The three textual fields are concatenated in their order, the separator marking the
  boundary between two fields. The scenario of section 8 fixes the rule: the fields
  \<^verbatim>\<open>["fever","cough"]\<close>, \<^verbatim>\<open>[]\<close>, \<^verbatim>\<open>["chest x-ray"]\<close> give
  \<^verbatim>\<open>["fever","cough","|","chest x-ray"]\<close>, so an empty field contributes neither tokens
  nor a separator.
\<close>

fun join_fields :: "'a \<Rightarrow> 'a list list \<Rightarrow> 'a list" where
  "join_fields sep [] = []"
| "join_fields sep [f] = f"
| "join_fields sep (f # g # fs) = f @ sep # join_fields sep (g # fs)"

text \<open>
  Modelled from the spec: the ordered list of tokens of an input (4.2, step 1, missing
  from the sources): the non-empty fields, in field order, joined by the separator.
\<close>

definition field_tokens :: "string \<Rightarrow> symptom_input \<Rightarrow> string list" where
  "field_tokens sep inp =
     join_fields sep
       (filter (\<lambda>f. f \<noteq> [])
          [subjective_symptoms inp, associated_symptoms inp, investigations_done inp])"

text \<open>
  Modelled from the spec: step 3 of the Sequence Encoder (4.2, missing from the sources).
  Fewer tokens than \<open>n\<close>: padding ids after them (\<open>Post\<close>) or before them (\<open>Pre\<close>). More
  tokens than \<open>n\<close>: the earliest are dropped (\<open>Pre\<close>) or the latest (\<open>Post\<close>).
\<close>

definition pad_or_truncate :: "padding_type \<Rightarrow> nat \<Rightarrow> nat \<Rightarrow> nat list \<Rightarrow> nat list" where
  "pad_or_truncate pt pad n ids =
     (if length ids < n then
        (case pt of
           Post \<Rightarrow> ids @ replicate (n - length ids) pad
         | Pre \<Rightarrow> replicate (n - length ids) pad @ ids)
      else if n < length ids then
        (case pt of
           Pre \<Rightarrow> drop (length ids - n) ids
         | Post \<Rightarrow> take n ids)
      else ids)"

text \<open>
  Modelled from the spec: \<^verbatim>\<open>encode(symptom_input, vocabulary, separator, padding_type,
  max_len)\<close> of the Sequence Encoder (4.2, missing from the sources): steps 1, 2 and 3.
\<close>

definition encode ::
  "symptom_input \<Rightarrow> vocabulary \<Rightarrow> string \<Rightarrow> padding_type \<Rightarrow> nat \<Rightarrow> nat list" where
  "encode inp v sep pt n = pad_or_truncate pt (padding_id v) n (map (vocab_encode v) (field_tokens sep inp))"

text \<open>
  Modelled from the spec: the order of the Ranker (4.4, missing from the sources). An
  entry is an index of the distribution with its label and its confidence; one entry
  comes before another when its confidence is higher, or when the confidences are equal
  and its index is lower.
\<close>

type_synonym entry = "nat \<times> string \<times> real"

text \<open>
  Modelled from the spec: "sort descending by confidence; ties broken by ascending index
  order" (4.4, missing from the sources).
\<close>

definition precedes :: "entry \<Rightarrow> entry \<Rightarrow> bool" where
  "precedes e f \<longleftrightarrow>
     snd (snd f) < snd (snd e) \<or> (snd (snd e) = snd (snd f) \<and> fst e < fst f)"

text \<open>
  Modelled from the spec: the sort of the Ranker (4.4, missing from the sources), an
  insertion sort by that order.
\<close>

fun insert_ranked :: "entry \<Rightarrow> entry list \<Rightarrow> entry list" where
  "insert_ranked e [] = [e]"
| "insert_ranked e (f # fs) = (if precedes e f then e # f # fs else f # insert_ranked e fs)"

text \<open>
  Modelled from the spec: the sorted list of entries (4.4, missing from the sources).
\<close>

definition sort_ranked :: "entry list \<Rightarrow> entry list" where
  "sort_ranked es = foldr insert_ranked es []"

text \<open>
  Modelled from the spec: "pair every distribution index with its decoded label" (4.4,
  missing from the sources); an index that does not decode ends the ranking with
  \<^verbatim>\<open>UnknownIndexError\<close>.
\<close>

fun pair_labels :: "vocabulary \<Rightarrow> (nat \<times> real) list \<Rightarrow> engine_error + entry list" where
  "pair_labels v [] = Inr []"
| "pair_labels v ((i, c) # ps) =
     (case vocab_decode v i of
        Inl e \<Rightarrow> Inl e
      | Inr l \<Rightarrow> (case pair_labels v ps of Inl e \<Rightarrow> Inl e | Inr es \<Rightarrow> Inr ((i, l, c) # es)))"

text \<open>
  Modelled from the spec: \<^verbatim>\<open>rank(distribution, diagnosis_vocabulary, top_k=None)\<close> of
  the Ranker (4.4, missing from the sources). A distribution whose length is not the size
  of the vocabulary fails with \<^verbatim>\<open>DistributionMismatchError\<close>; otherwise the entries are
  sorted and, when \<open>top_k\<close> is given, only the first \<open>top_k\<close> of them are returned.
  \<open>rank_entries\<close> keeps the indices, \<open>rank\<close> returns the pairs of label and confidence.
\<close>

definition rank_entries :: "real list \<Rightarrow> vocabulary \<Rightarrow> nat option \<Rightarrow> engine_error + entry list" where
  "rank_entries d v top_k =
     (if length d \<noteq> length (tokens v) then Inl DistributionMismatchError
      else (case pair_labels v (zip [0..<length d] d) of
              Inl e \<Rightarrow> Inl e
            | Inr es \<Rightarrow>
                Inr (case top_k of None \<Rightarrow> sort_ranked es | Some k \<Rightarrow> take k (sort_ranked es))))"

text \<open>
  Modelled from the spec: the Ranked Diagnosis List that \<^verbatim>\<open>rank\<close> returns (sections 3 and
  4.4, missing from the sources): the pairs of label and confidence of the entries.
\<close>

definition rank :: "real list \<Rightarrow> vocabulary \<Rightarrow> nat option \<Rightarrow> engine_error + (string \<times> real) list" where
  "rank d v top_k =
     (case rank_entries d v top_k of Inl e \<Rightarrow> Inl e | Inr es \<Rightarrow> Inr (map snd es))"

text \<open>
  Modelled from the spec: the loaded artifacts and the configuration of the engine
  (sections 2 and 6; the module that holds them is missing from the sources). \<open>model\<close> is
  the trained classifier, any function from the token sequence, the gender and the age to
  a list of scores.
\<close>

record engine =
  symptom_vocabulary :: vocabulary
  diagnosis_vocabulary :: vocabulary
  model :: "nat list \<Rightarrow> string \<Rightarrow> string \<Rightarrow> real list"
  genders :: "string list"
  age_groups :: "string list"
  separator :: string
  padding :: padding_type
  max_len :: nat





text \<open>
  The entries of a distribution before they are sorted, and the scores the model gives
  for an input.
\<close>

definition labelled :: "real list \<Rightarrow> vocabulary \<Rightarrow> entry list" where
  "labelled d v = map (\<lambda>i. (i, tokens v ! i, d ! i)) [0..<length d]"



section \<open>Sample inputs\<close>

text \<open>A document store that keeps the profiles upserted, in order, and a user.\<close>

definition kept_upserts :: "profile option \<Rightarrow> profile option list \<Rightarrow> exn + profile option list" where
  "kept_upserts up db = Inr (db @ [up])"

definition ada :: user_info where
  "ada = \<lparr>name = PStr ''Ada'', login_sub = PStr ''sub-1'', picture_url = PStr ''pic'',
           profile_url = PStr ''prof'', last_logged_in = PInt 7,
           email_address = PStr ''ada@example.org''\<rparr>"

text \<open>
  Collaborators that answer every call with the user information and the profile
  given, and keep the profiles upserted.
\<close>

definition answering ::
  "pyval + user_info \<Rightarrow> profile option \<Rightarrow> profile option list collaborators" where
  "answering ui up =
     \<lparr>oauth2_get_access_token = (\<lambda>code. Inr (PStr ''payload'')),
      json_loads = (\<lambda>text. Inr (PDict [(''access_token'', PStr ''t0'')])),
      oauth2_get_user_info = (\<lambda>token. Inr ui),
      document_db_get_user = (\<lambda>email db. Inr up),
      document_db_upsert_user = kept_upserts\<rparr>"

text \<open>The settings of a fresh process, the arguments of its command line.\<close>

definition defaults :: config where
  "defaults =
     \<lparr>DEBUG_MODE = PBool False, PORT = PInt 8080, MODEL_FILE = PStr ''model.h5'',
      SYMPTOMS_TOKENISER_FILE = PStr ''symptoms.json'',
      CAUSES_TOKENISER_FILE = PStr ''causes.json'', SYMPTOMS_SEPARATOR = PStr '';'',
      SYMPTOMS_SEQUENCE_PADDING_TYPE = PStr ''post'', SYMPTOMS_SEQUENCE_MAXLEN = PInt 50,
      MONGODB_URL = PStr ''mongodb://localhost'', MONGODB_DATABASE = PStr ''db'',
      WEB_REQUEST_TIMEOUT_SECONDS = PInt 30, CACHE_TIMEOUT_SECONDS = PInt 300,
      TENANT_DOMAIN = PStr ''tenant'', TENANT_OPENID_CONFIGURATION_CACHE_KEY = PStr ''key'',
      AUTHORISATION_HEADER_KEY = PStr ''Authorization'', REDIRECT_URL = PStr ''http://localhost'',
      CLIENT_ID = PStr ''id'', CLIENT_SECRET = PStr ''secret''\<rparr>"

definition command_line :: cli_args where
  "command_line = \<lparr>debug_mode = PBool True, port = PInt 9000\<rparr>"

definition maxlen_set :: "string \<rightharpoonup> string" where
  "maxlen_set = [''SYMPTOMS_SEQUENCE_MAXLEN'' \<mapsto> ''100'']"

text \<open>
  Two vocabularies, the patient of the scenario of section 8 of the specification, a
  patient who reports nothing, and an engine whose model gives the same three scores for every input.
\<close>

definition symptom_words :: vocabulary where
  "symptom_words =
     \<lparr>tokens = [''<pad>'', ''<unk>'', ''fever'', ''cough'', ''|'', ''chest x-ray''],
      unknown_id = 1, padding_id = 0\<rparr>"

definition diagnoses :: vocabulary where
  "diagnoses = \<lparr>tokens = [''flu'', ''cold'', ''asthma''], unknown_id = 1, padding_id = 0\<rparr>"

definition five_labels :: vocabulary where
  "five_labels =
     \<lparr>tokens = [''a'', ''b'', ''c'', ''d'', ''e''], unknown_id = 1, padding_id = 0\<rparr>"

definition patient :: symptom_input where
  "patient =
     \<lparr>subjective_symptoms = [''fever'', ''cough''], associated_symptoms = [],
      investigations_done = [''chest x-ray''], gender = ''female'', age = ''30-40''\<rparr>"

definition nothing_reported :: symptom_input where
  "nothing_reported =
     \<lparr>subjective_symptoms = [], associated_symptoms = [], investigations_done = [],
      gender = ''female'', age = ''30-40''\<rparr>"




section \<open>Properties of the profile update\<close>

lemma strip_blank: "strip s = [] \<longleftrightarrow> (\<forall>c\<in>set s. py_isspace c)"
proof
  assume "strip s = []"
  then have all: "\<forall>c\<in>set (dropWhile py_isspace s). py_isspace c"
    by (simp add: strip_def)
  have "dropWhile py_isspace s = []"
  proof (rule ccontr)
    assume ne: "dropWhile py_isspace s \<noteq> []"
    then have "\<not> py_isspace (hd (dropWhile py_isspace s))"
      by (rule hd_dropWhile)
    moreover have "hd (dropWhile py_isspace s) \<in> set (dropWhile py_isspace s)"
      using ne by simp
    ultimately show False
      using all by blast
  qed
  then show "\<forall>c\<in>set s. py_isspace c"
    by simp
next
  assume "\<forall>c\<in>set s. py_isspace c"
  then have "dropWhile py_isspace s = []"
    by simp
  then show "strip s = []"
    by (simp only: strip_def rev.simps dropWhile.simps)
qed

lemma url_missing_or_blank_dict: "url_missing_or_blank k (Some d) = Inr True"
  by (simp add: url_missing_or_blank_def py_in_def)

lemma update_user_profile_dict:
  "update_user_profile upsert (Some d) ui db =
     (case name_missing_or_blank (Some d) of
        Inl e \<Rightarrow> ((Some d, db), Some e)
      | Inr c \<Rightarrow>
          (case upsert (Some (stamped (if c then name ui else PStr '''') ui d)) db of
             Inl e \<Rightarrow> ((Some (stamped (if c then name ui else PStr '''') ui d), db), Some e)
           | Inr db' \<Rightarrow> ((Some (stamped (if c then name ui else PStr '''') ui d), db'), None)))"
  by (simp add: update_user_profile_def on_profile_def url_missing_or_blank_dict setitem_def
      stamped_def split: sum.splits)

lemma update_user_profile_None:
  "update_user_profile upsert None ui db = ((None, db), Some TypeError)"
  by (simp add: update_user_profile_def on_profile_def name_missing_or_blank_def py_in_def)

lemma map_of_stamped:
  "map_of (stamped n ui d) ''name'' = Some n"
  "map_of (stamped n ui d) ''picture_url'' = Some (picture_url ui)"
  "map_of (stamped n ui d) ''profile_url'' = Some (profile_url ui)"
  by (simp_all add: stamped_def update_conv')

lemma name_test_absent:
  "map_of d ''name'' = None \<Longrightarrow> name_missing_or_blank (Some d) = Inr True"
  by (simp add: name_missing_or_blank_def py_in_def)

lemma name_test_str:
  "map_of d ''name'' = Some (PStr s) \<Longrightarrow> name_missing_or_blank (Some d) = Inr (strip s = '''')"
  by (simp add: name_missing_or_blank_def py_in_def getitem_def)

lemma name_test_other:
  "map_of d ''name'' = Some v \<Longrightarrow> \<forall>s. v \<noteq> PStr s
     \<Longrightarrow> name_missing_or_blank (Some d) = Inl AttributeError"
  by (cases v) (simp_all add: name_missing_or_blank_def py_in_def getitem_def)

text \<open>
  C8, as amended. When the key \<^verbatim>\<open>"name"\<close> of the profile holds a \<^verbatim>\<open>str\<close> that is not
  blank, \<^verbatim>\<open>_update_user_profile\<close> assigns the empty string to it, so the name stored is
  lost; when the key is absent, or holds a blank \<^verbatim>\<open>str\<close>, it assigns
  \<^verbatim>\<open>user_info.name\<close>. In both cases the five assignments are made, and the call raises
  only what \<^verbatim>\<open>upsert_user\<close> raises on the dictionary they leave. When the key holds a
  value that is not a \<^verbatim>\<open>str\<close>, line 12 raises \<^verbatim>\<open>AttributeError\<close>: nothing is assigned
  and \<^verbatim>\<open>upsert_user\<close> is not called.
\<close>

theorem name_assignment:
  "(map_of d ''name'' = Some (PStr s) \<and> strip s \<noteq> '''' \<longrightarrow>
      (\<exists>d'. fst (fst (update_user_profile upsert (Some d) ui db)) = Some d'
          \<and> map_of d' ''name'' = Some (PStr '''')
          \<and> snd (update_user_profile upsert (Some d) ui db) = upsert_outcome upsert d' db))
   \<and> (map_of d ''name'' = None \<or> (map_of d ''name'' = Some (PStr s) \<and> strip s = '''') \<longrightarrow>
      (\<exists>d'. fst (fst (update_user_profile upsert (Some d) ui db)) = Some d'
          \<and> map_of d' ''name'' = Some (name ui)
          \<and> snd (update_user_profile upsert (Some d) ui db) = upsert_outcome upsert d' db))
   \<and> (\<forall>v. map_of d ''name'' = Some v \<and> (\<forall>t. v \<noteq> PStr t) \<longrightarrow>
      update_user_profile upsert (Some d) ui db = ((Some d, db), Some AttributeError))"
proof (intro conjI)
  show "map_of d ''name'' = Some (PStr s) \<and> strip s \<noteq> '''' \<longrightarrow>
      (\<exists>d'. fst (fst (update_user_profile upsert (Some d) ui db)) = Some d'
          \<and> map_of d' ''name'' = Some (PStr '''')
          \<and> snd (update_user_profile upsert (Some d) ui db) = upsert_outcome upsert d' db)"
    by (auto simp: update_user_profile_dict name_test_str map_of_stamped upsert_outcome_def
          split: sum.splits)
  show "map_of d ''name'' = None \<or> (map_of d ''name'' = Some (PStr s) \<and> strip s = '''') \<longrightarrow>
      (\<exists>d'. fst (fst (update_user_profile upsert (Some d) ui db)) = Some d'
          \<and> map_of d' ''name'' = Some (name ui)
          \<and> snd (update_user_profile upsert (Some d) ui db) = upsert_outcome upsert d' db)"
    by (auto simp: update_user_profile_dict name_test_absent name_test_str map_of_stamped
          upsert_outcome_def split: sum.splits)
  show "\<forall>v. map_of d ''name'' = Some v \<and> (\<forall>t. v \<noteq> PStr t) \<longrightarrow>
      update_user_profile upsert (Some d) ui db = ((Some d, db), Some AttributeError)"
    by (simp add: update_user_profile_dict name_test_other)
qed

theorem name_assignment_witness:
  "(\<exists>d'. fst (fst (update_user_profile kept_upserts (Some [(''name'', PStr ''Bob'')]) ada []))
            = Some d'
      \<and> map_of d' ''name'' = Some (PStr ''''))
   \<and> (\<exists>d'. fst (fst (update_user_profile kept_upserts (Some [(''name'', PStr '' '')]) ada []))
            = Some d'
      \<and> map_of d' ''name'' = Some (PStr ''Ada''))
   \<and> (\<exists>d'. fst (fst (update_user_profile kept_upserts (Some [(''age'', PInt 3)]) ada []))
            = Some d'
      \<and> map_of d' ''name'' = Some (PStr ''Ada''))
   \<and> update_user_profile kept_upserts (Some [(''name'', PInt 5)]) ada []
        = ((Some [(''name'', PInt 5)], []), Some AttributeError)"
  using name_assignment [of "[(''name'', PStr ''Bob'')]" "''Bob''" kept_upserts ada "[]"]
    name_assignment [of "[(''name'', PStr '' '')]" "'' ''" kept_upserts ada "[]"]
    name_assignment [of "[(''age'', PInt 3)]" "''''" kept_upserts ada "[]"]
    name_assignment [of "[(''name'', PInt 5)]" "''''" kept_upserts ada "[]"]
  by (auto simp add: strip_def py_isspace_def ada_def)

text \<open>
  C8 as stated fails on the stored null \<^verbatim>\<open>{"name": None}\<close>: the key is present and its
  value is not blank, yet line 12 calls \<^verbatim>\<open>None.strip()\<close> and the call ends with
  \<^verbatim>\<open>AttributeError\<close>, the name being neither the empty string nor \<^verbatim>\<open>user_info.name\<close>.
\<close>

theorem name_assignment_counterexample:
  "update_user_profile kept_upserts (Some [(''name'', PNone)]) ada []
     = ((Some [(''name'', PNone)], []), Some AttributeError)
   \<and> map_of [(''name'', PNone)] ''name'' \<noteq> Some (PStr '''')
   \<and> map_of [(''name'', PNone)] ''name'' \<noteq> Some (name ada)"
  by (simp add: update_user_profile_def on_profile_def name_missing_or_blank_def py_in_def
        getitem_def ada_def)

text \<open>
  C9, as amended. For every dictionary in which \<^verbatim>\<open>"name"\<close> is absent or holds a string
  (so that line 12 does not raise), and every user information, the tests of lines 18-19
  and 25-26 are true, whatever the dictionary holds under \<^verbatim>\<open>"picture_url"\<close> and
  \<^verbatim>\<open>"profile_url"\<close>; the call assigns \<^verbatim>\<open>user_info.picture_url\<close> and
  \<^verbatim>\<open>user_info.profile_url\<close> to the two keys, never the empty string, and raises only
  what \<^verbatim>\<open>upsert_user\<close> raises: no \<^verbatim>\<open>KeyError\<close> for an absent key.
\<close>

theorem url_assignment:
  assumes "map_of d ''name'' = None \<or> (\<exists>s. map_of d ''name'' = Some (PStr s))"
  shows "url_missing_or_blank ''picture_url'' (Some d) = Inr True
       \<and> url_missing_or_blank ''profile_url'' (Some d) = Inr True
       \<and> (\<exists>d'. fst (fst (update_user_profile upsert (Some d) ui db)) = Some d'
          \<and> map_of d' ''picture_url'' = Some (picture_url ui)
          \<and> map_of d' ''profile_url'' = Some (profile_url ui)
          \<and> snd (update_user_profile upsert (Some d) ui db) = upsert_outcome upsert d' db)"
  using assms
  by (auto simp: update_user_profile_dict url_missing_or_blank_dict name_test_absent name_test_str
        map_of_stamped upsert_outcome_def split: sum.splits)

theorem url_assignment_witness:
  "\<exists>d'. fst (fst (update_user_profile kept_upserts (Some [(''picture_url'', PStr ''old'')]) ada []))
          = Some d'
      \<and> map_of d' ''picture_url'' = Some (PStr ''pic'')
      \<and> map_of d' ''profile_url'' = Some (PStr ''prof'')"
  using url_assignment [of "[(''picture_url'', PStr ''old'')]" kept_upserts ada "[]"]
  by (auto simp add: ada_def)

text \<open>
  C9 as stated fails on the dictionary \<^verbatim>\<open>{"name": None, "picture_url": "old"}\<close>: line 12
  calls \<^verbatim>\<open>None.strip()\<close>, the call ends there with \<^verbatim>\<open>AttributeError\<close>, and
  \<^verbatim>\<open>"picture_url"\<close> still holds \<^verbatim>\<open>"old"\<close>, not \<^verbatim>\<open>user_info.picture_url\<close>.
\<close>

theorem url_assignment_counterexample:
  "update_user_profile kept_upserts
       (Some [(''name'', PNone), (''picture_url'', PStr ''old'')]) ada []
     = ((Some [(''name'', PNone), (''picture_url'', PStr ''old'')], []), Some AttributeError)
   \<and> map_of [(''name'', PNone), (''picture_url'', PStr ''old'')] ''picture_url''
       \<noteq> Some (picture_url ada)"
  by (simp add: update_user_profile_def on_profile_def name_missing_or_blank_def py_in_def
        getitem_def ada_def)

section \<open>Properties of the access token\<close>

lemma sample_update:
  "update_user_profile kept_upserts (Some [(''name'', PStr ''Ada L'')]) ada []
     = ((Some (stamped (PStr '''') ada [(''name'', PStr ''Ada L'')]),
         [Some (stamped (PStr '''') ada [(''name'', PStr ''Ada L'')])]), None)"
  by (simp add: update_user_profile_dict name_missing_or_blank_def py_in_def getitem_def
        strip_def py_isspace_def kept_upserts_def)

lemma get_access_token_after_token:
  assumes "oauth2_get_access_token c code = Inr payload"
    and "json_loads c payload = Inr obj"
    and "subscript obj ''access_token'' = Inr token"
  shows "get_access_token c code db =
     (case oauth2_get_user_info c token of
        Inl e \<Rightarrow> (db, Inl e)
      | Inr (Inl v) \<Rightarrow> if truthy v then (db, Inl AttributeError) else (db, Inr PNone)
      | Inr (Inr ui) \<Rightarrow>
     (case document_db_get_user c (email_address ui) db of
        Inl e \<Rightarrow> (db, Inl e)
      | Inr user_profile \<Rightarrow>
          if \<not> profile_truthy user_profile then (db, Inr (PStr not_registered))
          else (case update_user_profile (document_db_upsert_user c) user_profile ui db of
                  (s, Some e) \<Rightarrow> (snd s, Inl e)
                | (s, None) \<Rightarrow> (snd s, Inr payload))))"
  by (simp add: get_access_token_def assms)

lemma answering_called:
  "oauth2_get_access_token (answering ui up) PNone = Inr (PStr ''payload'')"
  by (simp add: answering_def)

lemma answering_loaded:
  "json_loads (answering ui up) (PStr ''payload'') = Inr (PDict [(''access_token'', PStr ''t0'')])"
  by (simp add: answering_def)

lemma answering_token:
  "subscript (PDict [(''access_token'', PStr ''t0'')]) ''access_token'' = Inr (PStr ''t0'')"
  by simp

lemma answering_user: "oauth2_get_user_info (answering ui up) t = Inr ui"
  by (simp add: answering_def)

lemma answering_profile: "document_db_get_user (answering ui up) e db = Inr up"
  by (simp add: answering_def)

lemma answering_upsert: "document_db_upsert_user (answering ui up) = kept_upserts"
  by (simp add: answering_def)

text \<open>
  C10. Once \<^verbatim>\<open>oauth2.get_access_token\<close>, \<^verbatim>\<open>json.loads\<close> and the subscript of line 39
  have returned: when \<^verbatim>\<open>oauth2.get_user_info\<close> yields a falsy value (\<^verbatim>\<open>None\<close>, an empty
  dictionary, ...), the call returns \<^verbatim>\<open>None\<close>, which is not a \<^verbatim>\<open>str\<close>, and leaves the
  store as it was; when it yields a user and \<^verbatim>\<open>document_db.get_user\<close> yields a falsy
  profile (\<^verbatim>\<open>None\<close> or an empty dictionary), the call returns the text
  \<^verbatim>\<open>"Error: user is not registered to access!"\<close> and leaves the store as it was,
  whatever \<^verbatim>\<open>upsert_user\<close> would do; when the profile is truthy and its update
  completes, the call returns the payload of \<^verbatim>\<open>oauth2.get_access_token\<close>. A value
  returned that is neither \<^verbatim>\<open>None\<close> nor that text is the payload, and then both the
  user and the profile were found and the profile was updated.
\<close>

theorem get_access_token_outcomes:
  assumes "oauth2_get_access_token c code = Inr payload"
    and "json_loads c payload = Inr obj"
    and "subscript obj ''access_token'' = Inr token"
  shows "(\<forall>v. oauth2_get_user_info c token = Inr (Inl v) \<and> \<not> truthy v
            \<longrightarrow> get_access_token c code db = (db, Inr PNone))
       \<and> (\<forall>ui up. oauth2_get_user_info c token = Inr (Inr ui)
              \<and> document_db_get_user c (email_address ui) db = Inr up
              \<and> \<not> profile_truthy up
            \<longrightarrow> get_access_token c code db = (db, Inr (PStr not_registered)))
       \<and> (\<forall>ui up s. oauth2_get_user_info c token = Inr (Inr ui)
              \<and> document_db_get_user c (email_address ui) db = Inr up
              \<and> profile_truthy up
              \<and> update_user_profile (document_db_upsert_user c) up ui db = (s, None)
            \<longrightarrow> get_access_token c code db = (snd s, Inr payload))
       \<and> (\<forall>db' v. get_access_token c code db = (db', Inr v)
              \<and> v \<noteq> PNone \<and> v \<noteq> PStr not_registered
            \<longrightarrow> v = payload
              \<and> (\<exists>ui up s. oauth2_get_user_info c token = Inr (Inr ui)
                    \<and> document_db_get_user c (email_address ui) db = Inr up
                    \<and> profile_truthy up
                    \<and> update_user_profile (document_db_upsert_user c) up ui db = (s, None)
                    \<and> db' = snd s))"
proof -
  note unfolded = get_access_token_after_token [OF assms, of db]
  have falsy_user: "\<forall>v. oauth2_get_user_info c token = Inr (Inl v) \<and> \<not> truthy v
      \<longrightarrow> get_access_token c code db = (db, Inr PNone)"
    by (simp add: unfolded)
  have falsy_profile: "\<forall>ui up. oauth2_get_user_info c token = Inr (Inr ui)
        \<and> document_db_get_user c (email_address ui) db = Inr up
        \<and> \<not> profile_truthy up
      \<longrightarrow> get_access_token c code db = (db, Inr (PStr not_registered))"
    by (simp add: unfolded)
  have found: "\<forall>ui up s. oauth2_get_user_info c token = Inr (Inr ui)
        \<and> document_db_get_user c (email_address ui) db = Inr up
        \<and> profile_truthy up
        \<and> update_user_profile (document_db_upsert_user c) up ui db = (s, None)
      \<longrightarrow> get_access_token c code db = (snd s, Inr payload)"
    by (simp add: unfolded)
  have only: "\<forall>db' v. get_access_token c code db = (db', Inr v)
        \<and> v \<noteq> PNone \<and> v \<noteq> PStr not_registered
      \<longrightarrow> v = payload
        \<and> (\<exists>ui up s. oauth2_get_user_info c token = Inr (Inr ui)
              \<and> document_db_get_user c (email_address ui) db = Inr up
              \<and> profile_truthy up
              \<and> update_user_profile (document_db_upsert_user c) up ui db = (s, None)
              \<and> db' = snd s)"
  proof (intro allI impI)
    fix db' v
    assume a: "get_access_token c code db = (db', Inr v)
        \<and> v \<noteq> PNone \<and> v \<noteq> PStr not_registered"
    show "v = payload
        \<and> (\<exists>ui up s. oauth2_get_user_info c token = Inr (Inr ui)
              \<and> document_db_get_user c (email_address ui) db = Inr up
              \<and> profile_truthy up
              \<and> update_user_profile (document_db_upsert_user c) up ui db = (s, None)
              \<and> db' = snd s)"
    proof (cases "oauth2_get_user_info c token")
      case (Inl e)
      with a show ?thesis by (auto simp add: unfolded)
    next
      case (Inr answer)
      show ?thesis
      proof (cases answer)
        case (Inl plain)
        with a Inr show ?thesis by (auto simp add: unfolded split: if_splits)
      next
        case ui: (Inr ui)
        show ?thesis
        proof (cases "document_db_get_user c (email_address ui) db")
          case (Inl e)
          with a Inr ui show ?thesis by (auto simp add: unfolded)
        next
          case up: (Inr up)
          show ?thesis
          proof (cases "profile_truthy up")
            case False
            with a Inr ui up show ?thesis by (auto simp add: unfolded)
          next
            case True
            obtain s r where upd:
              "update_user_profile (document_db_upsert_user c) up ui db = (s, r)"
              by (cases "update_user_profile (document_db_upsert_user c) up ui db")
            show ?thesis
            proof (cases r)
              case None
              with a Inr ui up True upd show ?thesis
                by (auto simp add: unfolded intro!: exI [of _ "fst s"])
            next
              case (Some e)
              with a Inr ui up True upd show ?thesis
                by (auto simp add: unfolded)
            qed
          qed
        qed
      qed
    qed
  qed
  from falsy_user falsy_profile found only show ?thesis
    by (intro conjI)
qed

theorem get_access_token_outcomes_witness:
  "get_access_token (answering (Inl PNone) None) PNone [] = ([], Inr PNone)
   \<and> get_access_token (answering (Inl (PDict [])) None) PNone [] = ([], Inr PNone)
   \<and> get_access_token (answering (Inr ada) None) PNone [] = ([], Inr (PStr not_registered))
   \<and> get_access_token (answering (Inr ada) (Some [])) PNone [] = ([], Inr (PStr not_registered))
   \<and> get_access_token (answering (Inr ada) (Some [(''name'', PStr ''Ada L'')])) PNone []
       = ([Some (stamped (PStr '''') ada [(''name'', PStr ''Ada L'')])], Inr (PStr ''payload''))"
proof -
  note outcomes = get_access_token_outcomes [OF answering_called answering_loaded answering_token]
  have "get_access_token (answering (Inl PNone) None) PNone [] = ([], Inr PNone)"
    using outcomes [of "Inl PNone" None "[]", THEN conjunct1, rule_format, of PNone]
    by (simp add: answering_user)
  moreover have "get_access_token (answering (Inl (PDict [])) None) PNone [] = ([], Inr PNone)"
    using outcomes [of "Inl (PDict [])" None "[]", THEN conjunct1, rule_format, of "PDict []"]
    by (simp add: answering_user)
  moreover have "get_access_token (answering (Inr ada) None) PNone []
      = ([], Inr (PStr not_registered))"
    using outcomes [of "Inr ada" None "[]", THEN conjunct2, THEN conjunct1, rule_format,
        of ada None]
    by (simp add: answering_user answering_profile profile_truthy_def)
  moreover have "get_access_token (answering (Inr ada) (Some [])) PNone []
      = ([], Inr (PStr not_registered))"
    using outcomes [of "Inr ada" "Some []" "[]", THEN conjunct2, THEN conjunct1, rule_format,
        of ada "Some []"]
    by (simp add: answering_user answering_profile profile_truthy_def)
  moreover have "get_access_token (answering (Inr ada) (Some [(''name'', PStr ''Ada L'')])) PNone []
       = ([Some (stamped (PStr '''') ada [(''name'', PStr ''Ada L'')])], Inr (PStr ''payload''))"
    using outcomes [of "Inr ada" "Some [(''name'', PStr ''Ada L'')]" "[]",
        THEN conjunct2, THEN conjunct2, THEN conjunct1, rule_format,
        of ada "Some [(''name'', PStr ''Ada L'')]"
        "(Some (stamped (PStr '''') ada [(''name'', PStr ''Ada L'')]),
         [Some (stamped (PStr '''') ada [(''name'', PStr ''Ada L'')])])"]
    by (simp add: answering_user answering_profile answering_upsert profile_truthy_def
          sample_update)
  ultimately show ?thesis
    by (intro conjI)
qed

section \<open>Properties of the start-up configuration\<close>

text \<open>
  C7, as amended. After the assignments of \<^verbatim>\<open>init\<close>, \<^verbatim>\<open>config.SYMPTOMS_SEQUENCE_MAXLEN\<close>
  is the text of the environment variable of that name, as a \<^verbatim>\<open>str\<close>, when the variable
  is set, and the value the module \<^verbatim>\<open>config\<close> held before when it is not: it is a positive
  integer exactly when the variable is not set and the default is a positive integer.
\<close>

theorem init_maxlen:
  "SYMPTOMS_SEQUENCE_MAXLEN (init args environ cfg)
     = (case environ ''SYMPTOMS_SEQUENCE_MAXLEN'' of
          Some v \<Rightarrow> PStr v | None \<Rightarrow> SYMPTOMS_SEQUENCE_MAXLEN cfg)
   \<and> (is_positive_int (SYMPTOMS_SEQUENCE_MAXLEN (init args environ cfg))
        \<longleftrightarrow> environ ''SYMPTOMS_SEQUENCE_MAXLEN'' = None
            \<and> is_positive_int (SYMPTOMS_SEQUENCE_MAXLEN cfg))"
  by (simp add: init_def Let_def environ_get_def split: option.splits)

theorem init_maxlen_witness:
  "SYMPTOMS_SEQUENCE_MAXLEN (init command_line Map.empty defaults) = PInt 50
   \<and> is_positive_int (SYMPTOMS_SEQUENCE_MAXLEN (init command_line Map.empty defaults))"
  using init_maxlen [of command_line Map.empty defaults]
  by (simp add: defaults_def)

text \<open>
  C7 as stated fails in an environment that sets the variable, here to \<^verbatim>\<open>100\<close>: the
  setting is then the string \<^verbatim>\<open>"100"\<close>, not an integer.
\<close>

theorem init_maxlen_counterexample:
  "SYMPTOMS_SEQUENCE_MAXLEN (init command_line maxlen_set defaults) = PStr ''100''
   \<and> \<not> is_positive_int (SYMPTOMS_SEQUENCE_MAXLEN (init command_line maxlen_set defaults))"
  by (simp add: init_def Let_def environ_get_def maxlen_set_def)

section \<open>Properties of the prediction engine\<close>

lemma length_pad_or_truncate: "length (pad_or_truncate pt pad n ids) = n"
  by (cases pt) (auto simp: pad_or_truncate_def)

lemma set_insert_ranked: "set (insert_ranked e es) = insert e (set es)"
  by (induction es) auto

lemma length_insert_ranked: "length (insert_ranked e es) = Suc (length es)"
  by (induction es) auto

lemma set_sort_ranked: "set (sort_ranked es) = set es"
  by (induction es) (simp_all add: sort_ranked_def set_insert_ranked)

lemma length_sort_ranked: "length (sort_ranked es) = length es"
  by (induction es) (simp_all add: sort_ranked_def length_insert_ranked)

lemma precedes_trans: "precedes e f \<Longrightarrow> precedes f g \<Longrightarrow> precedes e g"
  by (auto simp: precedes_def)

lemma precedes_total: "fst e \<noteq> fst f \<Longrightarrow> \<not> precedes e f \<Longrightarrow> precedes f e"
  by (auto simp: precedes_def)

lemma sorted_insert_ranked:
  "sorted_wrt precedes es \<Longrightarrow> \<forall>f\<in>set es. fst f \<noteq> fst e
     \<Longrightarrow> sorted_wrt precedes (insert_ranked e es)"
proof (induction es)
  case Nil
  then show ?case by simp
next
  case (Cons f fs)
  show ?case
  proof (cases "precedes e f")
    case True
    with Cons.prems show ?thesis
      by (auto intro: precedes_trans)
  next
    case False
    with Cons.prems have "precedes f e"
      by (auto intro: precedes_total)
    with False Cons show ?thesis
      by (auto simp: set_insert_ranked)
  qed
qed

lemma sorted_sort_ranked:
  "distinct (map fst es) \<Longrightarrow> sorted_wrt precedes (sort_ranked es)"
proof (induction es)
  case Nil
  then show ?case by (simp add: sort_ranked_def)
next
  case (Cons e es)
  then have "sorted_wrt precedes (sort_ranked es)"
    by simp
  moreover have "\<forall>f\<in>set (sort_ranked es). fst f \<noteq> fst e"
  proof
    fix f
    assume "f \<in> set (sort_ranked es)"
    then have "fst f \<in> set (map fst es)"
      by (simp add: set_sort_ranked)
    moreover from Cons.prems have "fst e \<notin> set (map fst es)"
      by simp
    ultimately show "fst f \<noteq> fst e"
      by metis
  qed
  ultimately have "sorted_wrt precedes (insert_ranked e (sort_ranked es))"
    by (rule sorted_insert_ranked)
  then show ?case
    by (simp add: sort_ranked_def)
qed

lemma pair_labels_ok:
  "\<forall>p\<in>set ps. fst p < length (tokens v)
     \<Longrightarrow> pair_labels v ps = Inr (map (\<lambda>p. (fst p, tokens v ! fst p, snd p)) ps)"
  by (induction ps) (auto simp: vocab_decode_def)

lemma pair_labels_zip:
  "length d = length (tokens v)
     \<Longrightarrow> pair_labels v (zip [0..<length d] d)
           = Inr (map (\<lambda>i. (i, tokens v ! i, d ! i)) [0..<length d])"
proof -
  assume len: "length d = length (tokens v)"
  have "\<forall>p\<in>set (zip [0..<length d] d). fst p < length (tokens v)"
    using len by (auto dest: set_zip_leftD)
  then have "pair_labels v (zip [0..<length d] d)
      = Inr (map (\<lambda>p. (fst p, tokens v ! fst p, snd p)) (zip [0..<length d] d))"
    by (rule pair_labels_ok)
  also have "map (\<lambda>p. (fst p, tokens v ! fst p, snd p)) (zip [0..<length d] d)
      = map (\<lambda>i. (i, tokens v ! i, d ! i)) [0..<length d]"
    by (rule nth_equalityI) simp_all
  finally show ?thesis .
qed

lemma pair_labels_labelled:
  "length d = length (tokens v)
     \<Longrightarrow> pair_labels v (zip [0..<length (tokens v)] d) = Inr (labelled d v)"
  using pair_labels_zip [of d v] by (simp add: labelled_def)

lemma rank_entries_ok:
  "length d = length (tokens v)
     \<Longrightarrow> rank_entries d v top_k
           = Inr (case top_k of None \<Rightarrow> sort_ranked (labelled d v)
                  | Some k \<Rightarrow> take k (sort_ranked (labelled d v)))"
  by (simp add: rank_entries_def pair_labels_labelled)

lemma sorted_labelled: "sorted_wrt precedes (sort_ranked (labelled d v))"
  by (rule sorted_sort_ranked) (simp add: labelled_def comp_def)

lemma set_labelled:
  "e \<in> set (sort_ranked (labelled d v))
     \<longleftrightarrow> (\<exists>i<length d. e = (i, tokens v ! i, d ! i))"
  by (auto simp: set_sort_ranked labelled_def)

lemma length_labelled: "length (sort_ranked (labelled d v)) = length d"
  by (simp add: length_sort_ranked labelled_def)


lemma patient_tokens:
  "field_tokens ''|'' patient = [''fever'', ''cough'', ''|'', ''chest x-ray'']"
  by (simp add: field_tokens_def patient_def)

lemma patient_ids:
  "vocab_encode symptom_words ''fever'' = 2"
  "vocab_encode symptom_words ''cough'' = 3"
  "vocab_encode symptom_words ''|'' = 4"
  "vocab_encode symptom_words ''chest x-ray'' = 5"
  "padding_id symptom_words = 0"
  by (simp_all add: vocab_encode_def symptom_words_def)

text \<open>
  C3. The sequence has exactly \<open>n\<close> ids. With fewer than \<open>n\<close> tokens, all their ids
  are kept, in order, and exactly \<open>n\<close> minus their number padding ids are put after
  them (\<open>Post\<close>) or before them (\<open>Pre\<close>). With more than \<open>n\<close> tokens, the sequence
  is the last \<open>n\<close> ids (\<open>Pre\<close>: the earliest are dropped) or the first \<open>n\<close> ids
  (\<open>Post\<close>: the latest are dropped).
\<close>

theorem encode_shape:
  "length (encode inp v sep pt n) = n
   \<and> (length (field_tokens sep inp) < n \<longrightarrow>
        (pt = Post \<longrightarrow> encode inp v sep pt n
           = map (vocab_encode v) (field_tokens sep inp)
             @ replicate (n - length (field_tokens sep inp)) (padding_id v))
        \<and> (pt = Pre \<longrightarrow> encode inp v sep pt n
           = replicate (n - length (field_tokens sep inp)) (padding_id v)
             @ map (vocab_encode v) (field_tokens sep inp)))
   \<and> (n < length (field_tokens sep inp) \<longrightarrow>
        (pt = Pre \<longrightarrow> encode inp v sep pt n
           = drop (length (field_tokens sep inp) - n) (map (vocab_encode v) (field_tokens sep inp)))
        \<and> (pt = Post \<longrightarrow> encode inp v sep pt n
           = take n (map (vocab_encode v) (field_tokens sep inp))))"
  by (simp add: encode_def length_pad_or_truncate) (simp add: pad_or_truncate_def)

theorem encode_shape_witness:
  "encode patient symptom_words ''|'' Post 10 = [2, 3, 4, 5, 0, 0, 0, 0, 0, 0]
   \<and> encode patient symptom_words ''|'' Pre 10 = [0, 0, 0, 0, 0, 0, 2, 3, 4, 5]
   \<and> encode patient symptom_words ''|'' Pre 3 = [3, 4, 5]
   \<and> encode patient symptom_words ''|'' Post 3 = [2, 3, 4]"
  using encode_shape [of patient symptom_words "''|''" Post 10]
    encode_shape [of patient symptom_words "''|''" Pre 10]
    encode_shape [of patient symptom_words "''|''" Pre 3]
    encode_shape [of patient symptom_words "''|''" Post 3]
  by (simp add: patient_tokens patient_ids eval_nat_numeral)

text \<open>
  C4. When the three textual fields are empty, the sequence is \<open>n\<close> padding ids;
  \<open>encode\<close> has no failure among its results.
\<close>

theorem encode_empty:
  "subjective_symptoms inp = [] \<Longrightarrow> associated_symptoms inp = []
     \<Longrightarrow> investigations_done inp = []
     \<Longrightarrow> encode inp v sep pt n = replicate n (padding_id v)"
  by (cases pt) (simp_all add: encode_def field_tokens_def pad_or_truncate_def)

theorem encode_empty_witness:
  "encode nothing_reported symptom_words ''|'' Post 4 = [0, 0, 0, 0]"
  using encode_empty [of nothing_reported symptom_words "''|''" Post 4]
  by (simp add: nothing_reported_def patient_ids eval_nat_numeral)

lemma rank_ok:
  "length d = length (tokens v)
     \<Longrightarrow> rank d v top_k
           = Inr (map snd (case top_k of None \<Rightarrow> sort_ranked (labelled d v)
                           | Some k \<Rightarrow> take k (sort_ranked (labelled d v))))"
  by (simp add: rank_def rank_entries_ok)

text \<open>
  C6. \<open>rank\<close> fails with \<^verbatim>\<open>DistributionMismatchError\<close> exactly when the length of the
  distribution is not the size of the vocabulary, and then it returns no list at all:
  nothing is truncated or padded.
\<close>

theorem rank_mismatch:
  "(rank d v top_k = Inl DistributionMismatchError \<longleftrightarrow> length d \<noteq> length (tokens v))
   \<and> (length d \<noteq> length (tokens v) \<longrightarrow> (\<forall>xs. rank d v top_k \<noteq> Inr xs))"
proof (cases "length d = length (tokens v)")
  case True
  then show ?thesis
    by (simp add: rank_ok)
next
  case False
  then show ?thesis
    by (simp add: rank_def rank_entries_def)
qed

theorem rank_mismatch_witness:
  "rank [1/10, 1/10, 1/10, 1/10, 1/10, 1/2] five_labels None = Inl DistributionMismatchError"
  using rank_mismatch [of "[1/10, 1/10, 1/10, 1/10, 1/10, 1/2]" five_labels None]
  by (simp add: five_labels_def)

text \<open>
  C5, as amended. For a distribution as long as the vocabulary, the ranking is sorted:
  of two entries the earlier has the higher confidence, or the same confidence and the
  lower index. Its length is the number of classes without \<open>top_k\<close>, and the smaller of
  \<open>top_k\<close> and the number of classes with it. Every entry carries the confidence the
  distribution has at its index and the label its index decodes to; without \<open>top_k\<close>
  every index occurs.
\<close>

theorem rank_order:
  assumes "length d = length (tokens v)"
  shows "\<exists>es. rank_entries d v top_k = Inr es \<and> rank d v top_k = Inr (map snd es)
     \<and> sorted_wrt precedes es
     \<and> length es = (case top_k of None \<Rightarrow> length d | Some k \<Rightarrow> min k (length d))
     \<and> (\<forall>e\<in>set es. fst e < length d \<and> snd (snd e) = d ! fst e
            \<and> vocab_decode v (fst e) = Inr (fst (snd e)))
     \<and> (top_k = None \<longrightarrow> fst ` set es = {0..<length d})"
proof (cases top_k)
  case None
  have "fst ` set (sort_ranked (labelled d v)) = {0..<length d}"
    by (force simp: set_labelled)
  moreover have "\<forall>e\<in>set (sort_ranked (labelled d v)). fst e < length d
      \<and> snd (snd e) = d ! fst e \<and> vocab_decode v (fst e) = Inr (fst (snd e))"
    using assms by (auto simp: set_labelled vocab_decode_def)
  ultimately show ?thesis
    using None assms
    by (simp add: rank_entries_ok rank_def sorted_labelled length_labelled)
next
  case (Some k)
  have "\<forall>e\<in>set (take k (sort_ranked (labelled d v))). fst e < length d
      \<and> snd (snd e) = d ! fst e \<and> vocab_decode v (fst e) = Inr (fst (snd e))"
    using assms by (auto dest!: in_set_takeD simp: set_labelled vocab_decode_def)
  moreover have "sorted_wrt precedes (take k (sort_ranked (labelled d v)))"
    using sorted_labelled by (rule sorted_wrt_take)
  ultimately show ?thesis
    using Some assms
    by (simp add: rank_entries_ok rank_def length_labelled)
qed

theorem rank_order_witness:
  "length [1/4, 1/2, 1/4 :: real] = length (tokens diagnoses)
   \<and> (\<exists>es. rank [1/4, 1/2, 1/4] diagnoses (Some 2) = Inr (map snd es)
         \<and> sorted_wrt precedes es \<and> length es = 2)"
  using rank_order [of "[1/4, 1/2, 1/4]" diagnoses "Some 2"]
  by (auto simp: diagnoses_def)

text \<open>
  C5 as stated fails when \<open>top_k\<close> exceeds the number of classes: with three classes
  and \<open>top_k = 5\<close> the ranking has three entries, not five. (Two of them have the same
  confidence, in the order of their indices.)
\<close>

theorem rank_order_counterexample:
  "rank [1/4, 1/2, 1/4] diagnoses (Some 5)
     = Inr [(''cold'', 1/2), (''flu'', 1/4), (''asthma'', 1/4)]
   \<and> length [(''cold'', 1/2 :: real), (''flu'', 1/4), (''asthma'', 1/4)] \<noteq> 5"
  by (simp add: rank_def rank_entries_def vocab_decode_def diagnoses_def sort_ranked_def
        precedes_def upt_rec [of 0] upt_rec [of 1] upt_rec [of 2] upt_rec [of 3])











end
